theory Spec2Isabelle
  imports Complex_Main
begin

section \<open>JavaScript values used by the handlers of index.js\<close>

subsection \<open>Numbers\<close>

text \<open>
  A JavaScript number is modelled as an exact real, one of the two infinities, or NaN.
  The rounding of IEEE-754 binary64 and the sign of zero are not modelled: every
  arithmetic operation below computes the exact result.
\<close>

datatype jsnum = Num real | PosInf | NegInf | NaN

text \<open>The operator \<^verbatim>\<open>a + b\<close> on two numbers.\<close>

fun jsadd :: "jsnum \<Rightarrow> jsnum \<Rightarrow> jsnum" where
  "jsadd (Num a) (Num b) = Num (a + b)"
| "jsadd NaN _ = NaN"
| "jsadd _ NaN = NaN"
| "jsadd PosInf NegInf = NaN"
| "jsadd NegInf PosInf = NaN"
| "jsadd PosInf _ = PosInf"
| "jsadd _ PosInf = PosInf"
| "jsadd NegInf _ = NegInf"
| "jsadd _ NegInf = NegInf"

text \<open>The operator \<^verbatim>\<open>a - b\<close> on two numbers.\<close>

fun jsneg :: "jsnum \<Rightarrow> jsnum" where
  "jsneg (Num a) = Num (- a)"
| "jsneg PosInf = NegInf"
| "jsneg NegInf = PosInf"
| "jsneg NaN = NaN"

definition jssub :: "jsnum \<Rightarrow> jsnum \<Rightarrow> jsnum" where
  "jssub a b = jsadd a (jsneg b)"

text \<open>The sign of a number that is not NaN: \<open>-1\<close>, \<open>0\<close> or \<open>1\<close>.\<close>

fun jssgn :: "jsnum \<Rightarrow> int" where
  "jssgn (Num a) = (if a < 0 then - 1 else if a = 0 then 0 else 1)"
| "jssgn PosInf = 1"
| "jssgn NegInf = - 1"
| "jssgn NaN = 0"

definition inf_of_sign :: "int \<Rightarrow> jsnum" where
  "inf_of_sign s = (if s < 0 then NegInf else PosInf)"

text \<open>The operator \<^verbatim>\<open>a * b\<close>: infinity times zero is NaN.\<close>

fun jsmul :: "jsnum \<Rightarrow> jsnum \<Rightarrow> jsnum" where
  "jsmul (Num a) (Num b) = Num (a * b)"
| "jsmul NaN _ = NaN"
| "jsmul _ NaN = NaN"
| "jsmul a b = (if jssgn a * jssgn b = 0 then NaN else inf_of_sign (jssgn a * jssgn b))"

text \<open>
  The operator \<^verbatim>\<open>a / b\<close>: zero by zero and infinity by infinity are NaN, any other
  finite number by zero is an infinity; no division raises.
\<close>

fun jsdiv :: "jsnum \<Rightarrow> jsnum \<Rightarrow> jsnum" where
  "jsdiv NaN _ = NaN"
| "jsdiv _ NaN = NaN"
| "jsdiv (Num a) (Num b) =
     (if b = 0 then (if a = 0 then NaN else inf_of_sign (jssgn (Num a))) else Num (a / b))"
| "jsdiv (Num a) _ = Num 0"
| "jsdiv a (Num b) = inf_of_sign (jssgn a * (if b < 0 then - 1 else 1))"
| "jsdiv _ _ = NaN"

text \<open>\<^verbatim>\<open>Math.round(x)\<close>: the integer nearest to \<open>x\<close>, halves rounded up.\<close>

fun Math_round :: "jsnum \<Rightarrow> jsnum" where
  "Math_round (Num a) = Num (of_int \<lfloor>a + 1 / 2\<rfloor>)"
| "Math_round x = x"

text \<open>The length of an array, as a number.\<close>

definition jslength :: "'a list \<Rightarrow> jsnum" where
  "jslength xs = Num (of_nat (length xs))"

subsection \<open>Strings\<close>

text \<open>
  \<^verbatim>\<open>String.prototype.toLowerCase\<close> on the ASCII letters; the bytes of any other
  character are left as they are.
\<close>

definition lower_char :: "char \<Rightarrow> char" where
  "lower_char c =
     (case map_of (zip ''ABCDEFGHIJKLMNOPQRSTUVWXYZ'' ''abcdefghijklmnopqrstuvwxyz'') c of
        Some d \<Rightarrow> d
      | None \<Rightarrow> c)"

definition toLowerCase :: "string \<Rightarrow> string" where
  "toLowerCase s = map lower_char s"

text \<open>Truthiness of a string-valued property that may be absent (\<^verbatim>\<open>undefined\<close>).\<close>

fun truthy :: "string option \<Rightarrow> bool" where
  "truthy None = False"
| "truthy (Some s) = (s \<noteq> [])"

subsection \<open>parseFloat and parseInt\<close>

text \<open>
  Both built-ins first skip leading white space (the ASCII white space characters are
  modelled), then read the longest prefix that is a numeric literal, and return NaN
  when there is none. Neither raises.
\<close>

definition is_space :: "char \<Rightarrow> bool" where
  "is_space c = ((of_char c :: nat) \<in> {9, 10, 11, 12, 13, 32})"

definition is_digit :: "char \<Rightarrow> bool" where
  "is_digit c = (48 \<le> (of_char c :: nat) \<and> (of_char c :: nat) \<le> 57)"

definition digit_val :: "char \<Rightarrow> nat" where
  "digit_val c = (of_char c :: nat) - 48"

definition digits_val :: "string \<Rightarrow> nat" where
  "digits_val ds = fold (\<lambda>c n. 10 * n + digit_val c) ds 0"

text \<open>An optional sign: the factor and the rest of the string.\<close>

fun read_sign :: "string \<Rightarrow> int \<times> string" where
  "read_sign [] = (1, [])"
| "read_sign (c # cs) =
     (if c = CHR ''-'' then (- 1, cs) else if c = CHR ''+'' then (1, cs) else (1, c # cs))"

text \<open>
  The exponent part after the mantissa: \<^verbatim>\<open>e\<close> or \<^verbatim>\<open>E\<close>, an optional sign and at least
  one digit; anything else is not part of the literal and counts as exponent 0.
\<close>

definition read_exponent :: "string \<Rightarrow> int" where
  "read_exponent s =
     (case s of
        [] \<Rightarrow> 0
      | c # cs \<Rightarrow>
          if c = CHR ''e'' \<or> c = CHR ''E'' then
            (let (sg, r) = read_sign cs; ds = takeWhile is_digit r
             in if ds = [] then 0 else sg * int (digits_val ds))
          else 0)"

definition pow10 :: "int \<Rightarrow> real" where
  "pow10 e = (if 0 \<le> e then 10 ^ nat e else 1 / 10 ^ nat (- e))"

definition parseFloat :: "string \<Rightarrow> jsnum" where
  "parseFloat s =
     (let (sg, u) = read_sign (dropWhile is_space s) in
      if take 8 u = ''Infinity'' then inf_of_sign sg
      else
        let ip = takeWhile is_digit u;
            r1 = dropWhile is_digit u;
            fp = (case r1 of [] \<Rightarrow> [] | c # cs \<Rightarrow> if c = CHR ''.'' then takeWhile is_digit cs else []);
            r2 = (case r1 of [] \<Rightarrow> [] | c # cs \<Rightarrow> if c = CHR ''.'' then dropWhile is_digit cs else r1)
        in if ip = [] \<and> fp = [] then NaN
           else Num (of_int sg
                  * (of_nat (digits_val ip) + of_nat (digits_val fp) / 10 ^ length fp)
                  * pow10 (read_exponent r2)))"

text \<open>
  \<^verbatim>\<open>parseInt(s)\<close> with no radix: base 16 after a \<^verbatim>\<open>0x\<close> or \<^verbatim>\<open>0X\<close> prefix, base 10
  otherwise.
\<close>

definition hex_val :: "char \<Rightarrow> nat option" where
  "hex_val c =
     (let n = (of_char c :: nat) in
      if 48 \<le> n \<and> n \<le> 57 then Some (n - 48)
      else if 97 \<le> n \<and> n \<le> 102 then Some (n - 87)
      else if 65 \<le> n \<and> n \<le> 70 then Some (n - 55)
      else None)"

definition is_hex :: "char \<Rightarrow> bool" where
  "is_hex c = (hex_val c \<noteq> None)"

definition hex_digits_val :: "string \<Rightarrow> nat" where
  "hex_digits_val ds = fold (\<lambda>c n. 16 * n + (case hex_val c of Some d \<Rightarrow> d | None \<Rightarrow> 0)) ds 0"

definition parseInt :: "string \<Rightarrow> jsnum" where
  "parseInt s =
     (let (sg, u) = read_sign (dropWhile is_space s) in
      if take 2 u = ''0x'' \<or> take 2 u = ''0X'' then
        (let ds = takeWhile is_hex (drop 2 u)
         in if ds = [] then NaN else Num (of_int (sg * int (hex_digits_val ds))))
      else
        (let ds = takeWhile is_digit u
         in if ds = [] then NaN else Num (of_int (sg * int (digits_val ds)))))"

text \<open>
  The coercions the handlers write inline, \<^verbatim>\<open>parseFloat(item.F || 0)\<close> and
  \<^verbatim>\<open>parseInt(item.F || 0)\<close>: an absent or empty field is replaced by the number
  \<open>0\<close>, which the built-in converts to the string \<^verbatim>\<open>"0"\<close> before parsing; any other
  field value is parsed as it is.
\<close>

definition parseFloat_or0 :: "string option \<Rightarrow> jsnum" where
  "parseFloat_or0 raw =
     (case raw of None \<Rightarrow> parseFloat ''0'' | Some s \<Rightarrow> if s = [] then parseFloat ''0'' else parseFloat s)"

definition parseInt_or0 :: "string option \<Rightarrow> jsnum" where
  "parseInt_or0 raw =
     (case raw of None \<Rightarrow> parseInt ''0'' | Some s \<Rightarrow> if s = [] then parseInt ''0'' else parseInt s)"

subsection \<open>Strings that begin with a numeric literal\<close>



section \<open>Datasets\<close>

text \<open>
  A row as csv-parser delivers it: an object from column names to the raw strings of the
  cells. A row shorter than the header lacks the remaining columns, so a field may be
  absent (\<^verbatim>\<open>undefined\<close>), which is \<open>None\<close> here.
\<close>

type_synonym row = "string \<rightharpoonup> string"

text \<open>
  The query object of a request, \<^verbatim>\<open>req.query\<close>, from parameter names to their string
  values.
\<close>

type_synonym query = "string \<rightharpoonup> string"

text \<open>
  A \<^verbatim>\<open>Date\<close> object holds a time value in milliseconds, or is an invalid date
  (\<open>None\<close>).
\<close>

type_synonym jsdate = "int option"

text \<open>
  A row of \<^verbatim>\<open>forecastData\<close>. \<^verbatim>\<open>loadData\<close> replaces two cells of every row before
  storing it: \<^verbatim>\<open>Forecasted_Demand\<close> by \<^verbatim>\<open>parseFloat\<close> of the cell and \<^verbatim>\<open>Date\<close> by
  \<^verbatim>\<open>new Date\<close> of the cell; \<open>cols\<close> holds the other columns.
\<close>

record forecast_row =
  Date :: jsdate
  Forecasted_Demand :: jsnum
  cols :: row

section \<open>Forecast endpoints\<close>

subsection \<open>filterData\<close>

definition filterData :: "query \<Rightarrow> forecast_row list \<Rightarrow> forecast_row list" where
  "filterData q forecastData =
     (let filteredData = forecastData;
          filteredData =
            (if truthy (q ''PRODUCT_CARD_ID'')
             then filter (\<lambda>d. cols d ''PRODUCT_CARD_ID'' = q ''PRODUCT_CARD_ID'') filteredData
             else filteredData);
          filteredData =
            (if truthy (q ''PRODUCT_NAME'')
             then filter (\<lambda>d. cols d ''PRODUCT_NAME'' = q ''PRODUCT_NAME'') filteredData
             else filteredData)
      in filteredData)"

subsection \<open>aggregateData\<close>

text \<open>
  The calendar functions the aggregator calls on a \<^verbatim>\<open>Date\<close>: \<^verbatim>\<open>getFullYear\<close> of the
  language and \<^verbatim>\<open>getWeek\<close>, \<^verbatim>\<open>getMonth\<close>, \<^verbatim>\<open>getQuarter\<close> of the date-fns package.
  They are not part of index.js and are taken as parameters; each returns an integer, or
  NaN (\<open>None\<close>) on an invalid date.
\<close>

record calendar =
  getFullYear :: "jsdate \<Rightarrow> int option"
  getWeek :: "jsdate \<Rightarrow> int option"
  getMonth :: "jsdate \<Rightarrow> int option"
  getQuarter :: "jsdate \<Rightarrow> int option"

text \<open>An integer, or NaN, inside a template literal.\<close>

fun nat_digits :: "nat \<Rightarrow> string" where
  "nat_digits n =
     (if n < 10 then [''0123456789'' ! n]
      else nat_digits (n div 10) @ [''0123456789'' ! (n mod 10)])"

definition ToString :: "int option \<Rightarrow> string" where
  "ToString v =
     (case v of
        None \<Rightarrow> ''NaN''
      | Some i \<Rightarrow> if i < 0 then CHR ''-'' # nat_digits (nat (- i)) else nat_digits (nat i))"

text \<open>
  The key of a record's bucket. A \<open>groupBy\<close> other than the three granularities leaves
  \<^verbatim>\<open>key\<close> undefined, which names the property \<^verbatim>\<open>"undefined"\<close>.
\<close>

definition period_key :: "calendar \<Rightarrow> string \<Rightarrow> jsdate \<Rightarrow> string" where
  "period_key cal groupBy d =
     (let year = getFullYear cal d in
      if groupBy = ''weekly'' then ToString year @ ''-W'' @ ToString (getWeek cal d)
      else if groupBy = ''monthly''
        then ToString year @ ''-M'' @ ToString (map_option (\<lambda>m. m + 1) (getMonth cal d))
      else if groupBy = ''quarterly'' then ToString year @ ''-Q'' @ ToString (getQuarter cal d)
      else ''undefined'')"

record bucket =
  demand :: jsnum
  count :: nat

text \<open>
  The accumulator object \<^verbatim>\<open>acc\<close>, as the list of its properties in insertion order,
  which is the order \<^verbatim>\<open>Object.entries\<close> lists them in (no key is an array index).
  One step of the reducer: create the bucket when \<^verbatim>\<open>acc[key]\<close> is missing, then add
  the record's demand and count it.
\<close>

fun acc_add :: "(string \<times> bucket) list \<Rightarrow> string \<Rightarrow> jsnum \<Rightarrow> (string \<times> bucket) list" where
  "acc_add [] key v = [(key, \<lparr>demand = jsadd (Num 0) v, count = 0 + 1\<rparr>)]"
| "acc_add ((k, b) # rest) key v =
     (if k = key then (k, \<lparr>demand = jsadd (demand b) v, count = count b + 1\<rparr>) # rest
      else (k, b) # acc_add rest key v)"

record period_total =
  period :: string
  total_demand :: jsnum
  average_demand :: jsnum

definition aggregateData :: "calendar \<Rightarrow> forecast_row list \<Rightarrow> string \<Rightarrow> period_total list" where
  "aggregateData cal data groupBy =
     (let aggregated =
            fold (\<lambda>curr acc. acc_add acc (period_key cal groupBy (Date curr)) (Forecasted_Demand curr))
              data []
      in map (\<lambda>(key, val).
                \<lparr>period = key, total_demand = demand val,
                 average_demand = jsdiv (demand val) (Num (of_nat (count val)))\<rparr>)
           aggregated)"


subsection \<open>GET /api/products\<close>

record product =
  PRODUCT_CARD_ID :: "string option"
  PRODUCT_NAME :: "string option"

text \<open>
  A \<^verbatim>\<open>Map\<close> as the list of its entries in insertion order. \<^verbatim>\<open>set\<close> on a key the map
  holds replaces the value and keeps the entry's place; on a new key it appends.
  \<^verbatim>\<open>new Map(entries)\<close> sets the entries one after the other.
\<close>

fun Map_set :: "('k \<times> 'v) list \<Rightarrow> 'k \<Rightarrow> 'v \<Rightarrow> ('k \<times> 'v) list" where
  "Map_set [] k v = [(k, v)]"
| "Map_set ((k', v') # m) k v = (if k' = k then (k', v) # m else (k', v') # Map_set m k v)"

definition new_Map :: "('k \<times> 'v) list \<Rightarrow> ('k \<times> 'v) list" where
  "new_Map entries = fold (\<lambda>(k, v) m. Map_set m k v) entries []"

definition products :: "forecast_row list \<Rightarrow> product list" where
  "products forecastData =
     map snd (new_Map (map (\<lambda>item. (cols item ''PRODUCT_CARD_ID'',
                                     \<lparr>PRODUCT_CARD_ID = cols item ''PRODUCT_CARD_ID'',
                                      PRODUCT_NAME = cols item ''PRODUCT_NAME''\<rparr>))
                         forecastData))"

section \<open>Responses and exceptions\<close>

text \<open>
  A value handed to \<^verbatim>\<open>res.json\<close>. \<open>Undefined\<close> is the value of a property read from a
  field the row lacks; \<^verbatim>\<open>JSON.stringify\<close> leaves such a property out and writes NaN and
  the infinities as \<^verbatim>\<open>null\<close>.
\<close>

datatype jsval =
    Undefined
  | Number jsnum
  | String string
  | Array "jsval list"
  | Object "(string \<times> jsval) list"

fun opt :: "string option \<Rightarrow> jsval" where
  "opt None = Undefined"
| "opt (Some s) = String s"

text \<open>Reading a property of an object, and the truthiness of a value.\<close>

fun get_prop :: "jsval \<Rightarrow> string \<Rightarrow> jsval" where
  "get_prop (Object ps) k = (case map_of ps k of None \<Rightarrow> Undefined | Some v \<Rightarrow> v)"
| "get_prop _ k = Undefined"

fun truthy_val :: "jsval \<Rightarrow> bool" where
  "truthy_val Undefined = False"
| "truthy_val (Number n) = (n \<noteq> NaN \<and> n \<noteq> Num 0)"
| "truthy_val (String s) = (s \<noteq> [])"
| "truthy_val (Array _) = True"
| "truthy_val (Object _) = True"

text \<open>A response: \<^verbatim>\<open>res.json(body)\<close> has status 200, \<^verbatim>\<open>res.status(n).json(body)\<close> status \<open>n\<close>.\<close>

record response =
  status :: nat
  body :: jsval

definition json :: "jsval \<Rightarrow> response" where
  "json b = \<lparr>status = 200, body = b\<rparr>"

definition status_json :: "nat \<Rightarrow> jsval \<Rightarrow> response" where
  "status_json n b = \<lparr>status = n, body = b\<rparr>"

text \<open>
  The one exception the modelled handlers can raise: a method called on \<^verbatim>\<open>undefined\<close>.
  A handler's result is \<open>Inl\<close> of the exception when it leaves the handler function, and
  \<open>Inr\<close> of the response the handler sent otherwise.
\<close>

datatype js_error = TypeError

text \<open>The comparison \<^verbatim>\<open>a < b\<close> on numbers: false whenever an operand is NaN.\<close>

fun jslt :: "jsnum \<Rightarrow> jsnum \<Rightarrow> bool" where
  "jslt NaN _ = False"
| "jslt _ NaN = False"
| "jslt (Num a) (Num b) = (a < b)"
| "jslt NegInf b = (b \<noteq> NegInf)"
| "jslt a PosInf = (a \<noteq> PosInf)"
| "jslt _ _ = False"

section \<open>KPI calculators\<close>

text \<open>
  \<^verbatim>\<open>arr.reduce((sum, item) => sum + f(item), 0)\<close>, and the size of
  \<^verbatim>\<open>new Set(arr.map(f))\<close>.
\<close>

definition reduce_sum :: "('a \<Rightarrow> jsnum) \<Rightarrow> 'a list \<Rightarrow> jsnum" where
  "reduce_sum f arr = fold (\<lambda>item sum. jsadd sum (f item)) arr (Num 0)"

definition distinct_count :: "('a \<Rightarrow> 'b) \<Rightarrow> 'a list \<Rightarrow> jsnum" where
  "distinct_count f arr = jslength (remdups (map f arr))"

text \<open>\<^verbatim>\<open>Math.round(x * 100) / 100\<close>.\<close>

definition round2 :: "jsnum \<Rightarrow> jsnum" where
  "round2 x = jsdiv (Math_round (jsmul x (Num 100))) (Num 100)"

subsection \<open>GET /api/sales/kpis\<close>

text \<open>
  The handler returns early on an empty \<^verbatim>\<open>salesData\<close>. Nothing in its
  \<^verbatim>\<open>try\<close> block can raise on rows that are objects, so the \<^verbatim>\<open>catch\<close> branch is
  never taken.
\<close>

definition sales_kpis :: "row list \<Rightarrow> response" where
  "sales_kpis salesData =
     (if length salesData = 0 then json (Object [(''error'', String ''Sales data not found'')])
      else
        let totalOrders = distinct_count (\<lambda>item. item ''Order Item Id'') salesData;
            totalSales = reduce_sum (\<lambda>item. parseFloat_or0 (item ''Sales'')) salesData;
            avgDiscount =
              jsdiv (reduce_sum (\<lambda>item. parseFloat_or0 (item ''Order Item Discount Rate'')) salesData)
                (jslength salesData);
            lateDeliveries = jslength (filter (\<lambda>item. item ''Late_delivery_risk'' = Some ''1'') salesData)
        in json (Object
             [(''total_orders'', Number totalOrders),
              (''total_sales'', Number (round2 totalSales)),
              (''avg_discount'', Number (jsdiv (Math_round (jsmul (jsmul avgDiscount (Num 100)) (Num 100))) (Num 100))),
              (''late_deliveries'', Number lateDeliveries)]))"

subsection \<open>GET /api/inventory/kpis\<close>

text \<open>
  No early return here: the average lead time divides by \<^verbatim>\<open>stockData.length\<close>
  whatever it is. Nothing in the \<^verbatim>\<open>try\<close> block can raise.
\<close>

definition inventory_kpis :: "row list \<Rightarrow> row list \<Rightarrow> row list \<Rightarrow> response" where
  "inventory_kpis stockData alertData scheduleData =
     (let totalSkus = distinct_count (\<lambda>item. item ''SKU_No'') stockData;
          totalStockOnHand = reduce_sum (\<lambda>item. parseInt_or0 (item ''Stock_On_Hand'')) stockData;
          inTransit = reduce_sum (\<lambda>item. parseInt_or0 (item ''In_Transit'')) stockData;
          belowReorderPoint =
            jslength (filter (\<lambda>item. jslt (parseInt_or0 (item ''Available''))
                                          (parseInt_or0 (item ''Reorder_Point''))) alertData);
          avgLeadTime =
            jsdiv (reduce_sum (\<lambda>item. parseFloat_or0 (item ''Lead_Time_Days'')) stockData)
              (jslength stockData);
          scheduledQty = reduce_sum (\<lambda>item. parseInt_or0 (item ''Scheduled_Quantity'')) scheduleData
      in json (Object
           [(''total_skus'', Number totalSkus),
            (''total_stock_on_hand'', Number totalStockOnHand),
            (''in_transit'', Number inTransit),
            (''below_reorder_point'', Number belowReorderPoint),
            (''avg_lead_time'', Number (round2 avgLeadTime)),
            (''scheduled_qty'', Number scheduledQty)]))"

subsection \<open>GET /api/kpis\<close>

definition production_kpis :: "row list \<Rightarrow> row list \<Rightarrow> response" where
  "production_kpis attendanceData stationScheduleData =
     (let totalOperators = distinct_count (\<lambda>item. item ''Operator_ID'') attendanceData;
          today = ''2018-01-01'';
          absentToday =
            jslength (filter (\<lambda>item. item ''Date'' = Some today \<and> item ''Present'' = Some ''No'')
                        attendanceData);
          totalUnitsScheduled =
            reduce_sum (\<lambda>item. parseInt_or0 (item ''unit''))
              (filter (\<lambda>item. item ''scheduled_date'' = Some ''01-01-2018'') stationScheduleData);
          uniqueProducts = distinct_count (\<lambda>item. item ''product_name'') stationScheduleData
      in json (Object
           [(''total_operators'', Number totalOperators),
            (''absent_today'', Number absentToday),
            (''total_units_scheduled'', Number totalUnitsScheduled),
            (''unique_products'', Number uniqueProducts)]))"

section \<open>Attendance\<close>

record attendance_entry =
  date :: "string option"
  operator_id :: "string option"
  operator_name :: "string option"
  present :: "string option"
  shift :: string

text \<open>
  \<^verbatim>\<open>new Date(s)\<close> on the \<^verbatim>\<open>date\<close> of an entry. Parsing a date string is the
  language's and is taken as the parameter \<open>parse\<close>; \<^verbatim>\<open>new Date(undefined)\<close> is an
  invalid date. The difference of two dates is the difference of their time values, NaN
  when either is invalid.
\<close>

fun new_Date :: "(string \<Rightarrow> jsdate) \<Rightarrow> string option \<Rightarrow> jsdate" where
  "new_Date parse None = None"
| "new_Date parse (Some s) = parse s"

fun date_diff :: "jsdate \<Rightarrow> jsdate \<Rightarrow> jsnum" where
  "date_diff (Some a) (Some b) = Num (of_int (a - b))"
| "date_diff _ _ = NaN"

text \<open>
  \<^verbatim>\<open>Array.prototype.sort(compare)\<close> as the stable sort the language prescribes:
  \<open>x\<close> moves behind \<open>y\<close> only when \<open>compare x y\<close> is greater than zero, so a NaN
  result leaves the two in place.
\<close>

fun jsgt0 :: "jsnum \<Rightarrow> bool" where
  "jsgt0 (Num a) = (0 < a)"
| "jsgt0 PosInf = True"
| "jsgt0 _ = False"

fun sort_insert :: "('a \<Rightarrow> 'a \<Rightarrow> jsnum) \<Rightarrow> 'a \<Rightarrow> 'a list \<Rightarrow> 'a list" where
  "sort_insert compare x [] = [x]"
| "sort_insert compare x (y # ys) =
     (if jsgt0 (compare x y) then y # sort_insert compare x ys else x # y # ys)"

definition Array_sort :: "('a \<Rightarrow> 'a \<Rightarrow> jsnum) \<Rightarrow> 'a list \<Rightarrow> 'a list" where
  "Array_sort compare xs = foldr (sort_insert compare) xs []"

subsection \<open>GET /api/attendance\<close>

definition attendance :: "(string \<Rightarrow> jsdate) \<Rightarrow> row list \<Rightarrow> attendance_entry list" where
  "attendance parse attendanceData =
     (let formattedData =
            Array_sort (\<lambda>a b. date_diff (new_Date parse (date a)) (new_Date parse (date b)))
              (map (\<lambda>item.
                      \<lparr>date = item ''Date'',
                       operator_id = item ''Operator_ID'',
                       operator_name = item ''Operator_Name'',
                       present = item ''Present'',
                       shift = (case item ''Shift'' of None \<Rightarrow> ''Day''
                                | Some s \<Rightarrow> if s = [] then ''Day'' else s)\<rparr>)
                 attendanceData)
      in formattedData)"

subsection \<open>GET /api/attendance/table\<close>


section \<open>Insights\<close>

subsection \<open>GET /api/insights, the handler registered first\<close>

definition filterInsightsData :: "query \<Rightarrow> row list \<Rightarrow> row list" where
  "filterInsightsData q insightsData =
     (let filteredData = insightsData;
          filteredData =
            (if truthy (q ''Month'')
             then filter (\<lambda>d. d ''Month'' = q ''Month'') filteredData else filteredData);
          filteredData =
            (if truthy (q ''PRODUCT_CARD_ID'')
             then filter (\<lambda>d. d ''PRODUCT_CARD_ID'' = q ''PRODUCT_CARD_ID'') filteredData
             else filteredData);
          filteredData =
            (if truthy (q ''PRODUCT_NAME'')
             then filter (\<lambda>d. d ''PRODUCT_NAME'' = q ''PRODUCT_NAME'') filteredData
             else filteredData)
      in filteredData)"

text \<open>
  The two bodies sent under the path: the first handler sends the array of rows, the
  second an object with the one property \<^verbatim>\<open>insights\<close>.
\<close>

datatype insights_body = Rows "row list" | Insights "row list"

definition monthly_bullet_insights :: "query \<Rightarrow> row list \<Rightarrow> insights_body" where
  "monthly_bullet_insights q insightsData = Rows (filterInsightsData q insightsData)"

subsection \<open>GET /api/insights, the handler registered second\<close>

definition operator_insights :: "row list \<Rightarrow> insights_body" where
  "operator_insights operatorInsightsData =
     Insights (filter (\<lambda>item. truthy (item ''operator_id'') \<and> truthy (item ''ai_insight''))
                 operatorInsightsData)"

section \<open>Supplier performance\<close>

text \<open>
  \<^verbatim>\<open>item.Supplier_Name.toLowerCase() === supplier.toLowerCase()\<close>: a row without the
  field makes the method call raise.
\<close>

definition name_matches :: "string \<Rightarrow> row \<Rightarrow> js_error + bool" where
  "name_matches supplier item =
     (case item ''Supplier_Name'' of
        None \<Rightarrow> Inl TypeError
      | Some n \<Rightarrow> Inr (toLowerCase n = toLowerCase supplier))"

text \<open>
  \<^verbatim>\<open>Array.prototype.filter\<close> and \<^verbatim>\<open>Array.prototype.find\<close> with a callback that may
  raise: \<^verbatim>\<open>filter\<close> calls it on every element, \<^verbatim>\<open>find\<close> stops at the first element
  it accepts.
\<close>

fun filter_raising :: "('a \<Rightarrow> js_error + bool) \<Rightarrow> 'a list \<Rightarrow> js_error + 'a list" where
  "filter_raising p [] = Inr []"
| "filter_raising p (x # xs) =
     (case p x of
        Inl e \<Rightarrow> Inl e
      | Inr b \<Rightarrow>
          (case filter_raising p xs of
             Inl e \<Rightarrow> Inl e
           | Inr ys \<Rightarrow> Inr (if b then x # ys else ys)))"

fun find_raising :: "('a \<Rightarrow> js_error + bool) \<Rightarrow> 'a list \<Rightarrow> js_error + 'a option" where
  "find_raising p [] = Inr None"
| "find_raising p (x # xs) =
     (case p x of
        Inl e \<Rightarrow> Inl e
      | Inr b \<Rightarrow> if b then Inr (Some x) else find_raising p xs)"

text \<open>
  \<^verbatim>\<open>parseFloat(f)\<close> and \<^verbatim>\<open>parseInt(f)\<close> on a field that may be absent: the built-ins
  convert \<^verbatim>\<open>undefined\<close> to the string \<^verbatim>\<open>"undefined"\<close> first.
  \<^verbatim>\<open>f.replace('%', '')\<close> removes the first percent sign and raises on an absent field.
\<close>

definition parseFloat_field :: "string option \<Rightarrow> jsnum" where
  "parseFloat_field f = (case f of None \<Rightarrow> parseFloat ''undefined'' | Some s \<Rightarrow> parseFloat s)"

definition parseInt_field :: "string option \<Rightarrow> jsnum" where
  "parseInt_field f = (case f of None \<Rightarrow> parseInt ''undefined'' | Some s \<Rightarrow> parseInt s)"

fun remove_first_percent :: "string \<Rightarrow> string" where
  "remove_first_percent [] = []"
| "remove_first_percent (c # cs) = (if c = CHR ''%'' then cs else c # remove_first_percent cs)"

definition percent_field :: "string option \<Rightarrow> js_error + jsnum" where
  "percent_field f =
     (case f of None \<Rightarrow> Inl TypeError | Some s \<Rightarrow> Inr (parseFloat (remove_first_percent s)))"

definition quoted :: "string \<Rightarrow> string" where
  "quoted s = [CHR 0x27] @ s @ [CHR 0x27]"

subsection \<open>GET /api/suppliers/:endpoint/:supplier\<close>

text \<open>The handler has no \<^verbatim>\<open>try\<close> block.\<close>

definition supplier_data :: "row list \<Rightarrow> string \<Rightarrow> string \<Rightarrow> js_error + response" where
  "supplier_data suppliersData endpoint supplier =
     (case filter_raising (name_matches supplier) suppliersData of
        Inl e \<Rightarrow> Inl e
      | Inr [] \<Rightarrow> Inr (status_json 404 (Object [(''error'', String (supplier @ '' not found''))]))
      | Inr (supplierData # _) \<Rightarrow>
          if endpoint = ''kpis'' then
            (case percent_field (supplierData ''Fulfillment_Rate'') of
               Inl e \<Rightarrow> Inl e
             | Inr fulfillment \<Rightarrow>
                 (case percent_field (supplierData ''OTD_Percentage'') of
                    Inl e \<Rightarrow> Inl e
                  | Inr otd \<Rightarrow>
                      Inr (json (Object
                        [(''supplier'', opt (supplierData ''Supplier_Name'')),
                         (''lead_time_days'', Number (parseFloat_field (supplierData ''Lead_Time_Days''))),
                         (''fulfillment_rate_percent'', Number fulfillment),
                         (''otd_percent'', Number otd),
                         (''late_deliveries'', Number (parseInt_field (supplierData ''Late_Deliveries''))),
                         (''total_orders'', Number (parseInt_field (supplierData ''Total_Orders'')))]))))
          else if endpoint = ''metrics'' then
            (case percent_field (supplierData ''OTD_Percentage'') of
               Inl e \<Rightarrow> Inl e
             | Inr otd \<Rightarrow>
                 (case percent_field (supplierData ''Fulfillment_Rate'') of
                    Inl e \<Rightarrow> Inl e
                  | Inr fulfillment \<Rightarrow>
                      Inr (json (Object
                        [(''OTD %'', Number otd),
                         (''Quality Score'', Number (parseFloat_field (supplierData ''Quality_Score''))),
                         (''Fulfillment %'', Number fulfillment)]))))
          else if endpoint = ''delivery-stats'' then
            (let totalOrders = parseInt_field (supplierData ''Total_Orders'');
                 lateDeliveries = parseInt_field (supplierData ''Late_Deliveries'')
             in Inr (json (Object
                  [(''on_time'', Number (jssub totalOrders lateDeliveries)),
                   (''late'', Number lateDeliveries),
                   (''total'', Number totalOrders)])))
          else
            Inr (status_json 400
                   (Object [(''error'', String (''Unknown supplier endpoint '' @ quoted endpoint))])))"

subsection \<open>GET /api/suppliers/alternates/:supplier\<close>

text \<open>The object the handler builds from a row of \<^verbatim>\<open>alternateSuppliersData\<close>.\<close>

definition alternate_entry :: "row \<Rightarrow> jsval" where
  "alternate_entry item =
     Object
       [(''sku_id'', opt (item ''sku_id'')),
        (''supplier_name'', opt (item ''supplier_name'')),
        (''otd_percentage'', opt (item ''otd_percentage'')),
        (''quality_score'', opt (item ''quality_score'')),
        (''email'', opt (item ''email'')),
        (''location'', opt (item ''location''))]"

text \<open>The handler has no \<^verbatim>\<open>try\<close> block.\<close>

definition alternates :: "row list \<Rightarrow> row list \<Rightarrow> string \<Rightarrow> js_error + response" where
  "alternates suppliersData alternateSuppliersData supplier =
     (case find_raising (name_matches supplier) suppliersData of
        Inl e \<Rightarrow> Inl e
      | Inr None \<Rightarrow> Inr (status_json 404 (Object [(''error'', String (supplier @ '' not found''))]))
      | Inr (Some mainSupplier) \<Rightarrow>
          (let skus = mainSupplier ''SKU_No'';
               filtered = filter (\<lambda>item. item ''sku_id'' = skus) alternateSuppliersData;
               result =
                 filter (\<lambda>item. truthy_val (get_prop item ''sku_id'')
                               \<and> truthy_val (get_prop item ''supplier_name''))
                   (map alternate_entry filtered)
           in Inr (json (Array result))))"

section \<open>Routing\<close>

text \<open>
  Every route of index.js is registered with \<^verbatim>\<open>app.get\<close>, so the requests modelled are
  GET requests: the path as the list of its segments between the slashes, and the query
  object. The two middlewares registered before the routes (CORS and the request logger)
  call \<^verbatim>\<open>next()\<close> and pass every request on.
\<close>

record request =
  path :: "string list"
  query :: query

datatype segment = Lit string | Param string

text \<open>The handlers, named after their routes, in the order index.js registers them.\<close>

datatype route_handler =
    Forecasts
  | Forecasts_weekly
  | Forecasts_monthly
  | Forecasts_quarterly
  | Insights_monthly_bullets
  | Products
  | Sales_kpis
  | Sales_metric
  | Inventory_kpis
  | Inventory_reorder_chart
  | Inventory_lead_times
  | Inventory_suppliers
  | Inventory_dataset
  | Procurement_insights
  | Procurement_insight
  | Production_kpis
  | Schedule
  | Schedule_chart
  | Schedule_operator_workload
  | Attendance
  | Attendance_table
  | Leaves
  | Insights_operator
  | Insights1_operator
  | Operators_dropdown
  | Supplier_data
  | Suppliers_list
  | Suppliers_alternates
  | Suppliers_insight
  | Insights_period
  | Health

definition routes :: "(segment list \<times> route_handler) list" where
  "routes =
     [([Lit ''api'', Lit ''forecasts''], Forecasts),
      ([Lit ''api'', Lit ''forecasts'', Lit ''weekly''], Forecasts_weekly),
      ([Lit ''api'', Lit ''forecasts'', Lit ''monthly''], Forecasts_monthly),
      ([Lit ''api'', Lit ''forecasts'', Lit ''quarterly''], Forecasts_quarterly),
      ([Lit ''api'', Lit ''insights''], Insights_monthly_bullets),
      ([Lit ''api'', Lit ''products''], Products),
      ([Lit ''api'', Lit ''sales'', Lit ''kpis''], Sales_kpis),
      ([Lit ''api'', Lit ''sales'', Param ''metric''], Sales_metric),
      ([Lit ''api'', Lit ''inventory'', Lit ''kpis''], Inventory_kpis),
      ([Lit ''api'', Lit ''inventory'', Lit ''reorder_chart''], Inventory_reorder_chart),
      ([Lit ''api'', Lit ''inventory'', Lit ''lead_times''], Inventory_lead_times),
      ([Lit ''api'', Lit ''inventory'', Lit ''suppliers''], Inventory_suppliers),
      ([Lit ''api'', Lit ''inventory'', Param ''dataset''], Inventory_dataset),
      ([Lit ''api'', Lit ''procurement'', Lit ''insights''], Procurement_insights),
      ([Lit ''api'', Lit ''procurement'', Lit ''insight'', Param ''sku_id''], Procurement_insight),
      ([Lit ''api'', Lit ''kpis''], Production_kpis),
      ([Lit ''api'', Lit ''schedule''], Schedule),
      ([Lit ''api'', Lit ''schedule'', Lit ''chart''], Schedule_chart),
      ([Lit ''api'', Lit ''schedule'', Lit ''operator_workload''], Schedule_operator_workload),
      ([Lit ''api'', Lit ''attendance''], Attendance),
      ([Lit ''api'', Lit ''attendance'', Lit ''table''], Attendance_table),
      ([Lit ''api'', Lit ''leaves''], Leaves),
      ([Lit ''api'', Lit ''insights''], Insights_operator),
      ([Lit ''api'', Lit ''insights1'', Param ''operator_id''], Insights1_operator),
      ([Lit ''api'', Lit ''operators'', Lit ''dropdown''], Operators_dropdown),
      ([Lit ''api'', Lit ''suppliers'', Param ''endpoint'', Param ''supplier''], Supplier_data),
      ([Lit ''api'', Lit ''suppliers'', Lit ''list''], Suppliers_list),
      ([Lit ''api'', Lit ''suppliers'', Lit ''alternates'', Param ''supplier''], Suppliers_alternates),
      ([Lit ''api'', Lit ''suppliers'', Lit ''insight'', Param ''identifier''], Suppliers_insight),
      ([Lit ''api'', Lit ''insights'', Param ''period''], Insights_period),
      ([], Health)]"

text \<open>
  A path matches a pattern segment by segment: a literal segment up to letter case (the
  framework's default), a parameter on any non-empty segment, which it binds.
\<close>

fun match_path :: "segment list \<Rightarrow> string list \<Rightarrow> (string \<times> string) list option" where
  "match_path [] [] = Some []"
| "match_path (Lit l # ps) (s # ss) =
     (if toLowerCase s = toLowerCase l then match_path ps ss else None)"
| "match_path (Param n # ps) (s # ss) =
     (if s = [] then None
      else (case match_path ps ss of None \<Rightarrow> None | Some bs \<Rightarrow> Some ((n, s) # bs)))"
| "match_path _ _ = None"

text \<open>
  The router tries the routes in the order of their registration and runs the handler of
  the first one that matches. Every handler of index.js sends a response and none calls
  \<^verbatim>\<open>next()\<close>, so no later route is tried.
\<close>

fun first_match ::
  "(segment list \<times> route_handler) list \<Rightarrow> string list
     \<Rightarrow> (route_handler \<times> (string \<times> string) list) option" where
  "first_match [] p = None"
| "first_match ((pat, h) # rs) p =
     (case match_path pat p of None \<Rightarrow> first_match rs p | Some bs \<Rightarrow> Some (h, bs))"

definition dispatch :: "string list \<Rightarrow> (route_handler \<times> (string \<times> string) list) option" where
  "dispatch p = first_match routes p"

text \<open>
  Serving a request, given what each handler does with the parameters and the query it
  receives: the result of the handler the router picks, or \<open>None\<close> when no route
  matches and the catch-all middleware answers 404.
\<close>

definition serve ::
  "(route_handler \<Rightarrow> (string \<times> string) list \<Rightarrow> query \<Rightarrow> 'r) \<Rightarrow> request \<Rightarrow> 'r option" where
  "serve handlers req =
     (case dispatch (path req) of
        None \<Rightarrow> None
      | Some (h, bs) \<Rightarrow> Some (handlers h bs (query req)))"

text \<open>
  The handlers of the two routes registered under \<^verbatim>\<open>/api/insights\<close>, over the arrays
  they read. The handlers of the other routes play no part in which of the two answers
  and are left as the parameter \<open>others\<close>.
\<close>

definition insights_handlers ::
  "(route_handler \<Rightarrow> (string \<times> string) list \<Rightarrow> query \<Rightarrow> insights_body)
     \<Rightarrow> row list \<Rightarrow> row list
     \<Rightarrow> route_handler \<Rightarrow> (string \<times> string) list \<Rightarrow> query \<Rightarrow> insights_body" where
  "insights_handlers others insightsData operatorInsightsData h bs q =
     (if h = Insights_monthly_bullets then monthly_bullet_insights q insightsData
      else if h = Insights_operator then operator_insights operatorInsightsData
      else others h bs q)"

section \<open>Startup\<close>

text \<open>The module-level arrays, each initialised to \<^verbatim>\<open>[]\<close> and assigned when its file has been read.\<close>

datatype dataset =
    ForecastData | InsightsData | SalesData
  | StockData | AlertData | ScheduleData | BomData | MrpData | ProductionOrdersData
  | StationScheduleData | ProcurementData
  | AttendanceData | LeaveRequestsData | OperatorInsightsData
  | SuppliersData | AlternateSuppliersData | SupplierInsightsData
  | MonthlyInsightsData | QuarterlyInsightsData | YearlyInsightsData

definition all_datasets :: "dataset list" where
  "all_datasets =
     [ForecastData, InsightsData, SalesData,
      StockData, AlertData, ScheduleData, BomData, MrpData, ProductionOrdersData,
      StationScheduleData, ProcurementData,
      AttendanceData, LeaveRequestsData, OperatorInsightsData,
      SuppliersData, AlternateSuppliersData, SupplierInsightsData,
      MonthlyInsightsData, QuarterlyInsightsData, YearlyInsightsData]"

text \<open>
  What the event loop delivers to the process. \<^verbatim>\<open>app.listen(port, callback)\<close> binds the
  port and calls \<open>callback\<close> once the server is listening; only the callback starts the
  loads and awaits them. So the events are: the server has started listening; a file's
  stream has ended and its array is assigned; a stream has failed, which rejects the
  awaited promise and runs \<^verbatim>\<open>process.exit(1)\<close>; a request has arrived.
\<close>

datatype event = Listening | LoadEnd dataset | LoadError dataset | Request

text \<open>
  The state of the process: whether the server accepts connections, the exit status once
  the process has exited, the arrays assigned so far, and, for every request handled, the
  arrays that were assigned when its handler ran (any other array it read was still
  \<^verbatim>\<open>[]\<close>).
\<close>

record server =
  listening :: bool
  exit_code :: "nat option"
  loaded :: "dataset list"
  handled :: "dataset list list"

definition init :: server where
  "init = \<lparr>listening = False, exit_code = None, loaded = [], handled = []\<rparr>"

fun step :: "server \<Rightarrow> event \<Rightarrow> server" where
  "step s Listening = (if exit_code s = None then s\<lparr>listening := True\<rparr> else s)"
| "step s (LoadEnd d) =
     (if listening s \<and> exit_code s = None then s\<lparr>loaded := d # loaded s\<rparr> else s)"
| "step s (LoadError d) =
     (if listening s \<and> exit_code s = None then s\<lparr>exit_code := Some 1\<rparr> else s)"
| "step s Request =
     (if listening s \<and> exit_code s = None then s\<lparr>handled := handled s @ [loaded s]\<rparr> else s)"

definition run :: "event list \<Rightarrow> server" where
  "run evs = foldl step init evs"

section \<open>Properties\<close>

subsection \<open>Arithmetic of numbers\<close>








subsection \<open>The period aggregator keeps the total\<close>



text \<open>
  Two records of one month give one bucket, with their sum and their mean (the calendar
  here places every date in July 2024).
\<close>

lemma aggregate_monthly_example:
  "aggregateData
     \<lparr>getFullYear = (\<lambda>d. Some 2024), getWeek = (\<lambda>d. Some 27),
      getMonth = (\<lambda>d. Some 6), getQuarter = (\<lambda>d. Some 3)\<rparr>
     [\<lparr>Date = Some 1, Forecasted_Demand = Num 10, cols = Map.empty\<rparr>,
      \<lparr>Date = Some 2, Forecasted_Demand = Num 20, cols = Map.empty\<rparr>] ''monthly''
   = [\<lparr>period = ''2024-M7'', total_demand = Num 30, average_demand = Num 15\<rparr>]"
  by (simp add: aggregateData_def period_key_def ToString_def)


subsection \<open>The forecast filter\<close>

text \<open>
  C6 (as amended). \<open>filterData\<close> returns, in the order of the dataset, exactly the records
  whose \<open>PRODUCT_CARD_ID\<close> and \<open>PRODUCT_NAME\<close> equal each query parameter that is present
  and not the empty string; a parameter that is absent or empty filters nothing, so with
  no such parameter the dataset comes back as it is; and filtering by one field and then
  by the other, in either order, equals filtering once by both.
\<close>

theorem filterData_conjunction:
  "filterData q data =
     filter (\<lambda>d. (\<forall>v. q ''PRODUCT_CARD_ID'' = Some v \<and> v \<noteq> [] \<longrightarrow> cols d ''PRODUCT_CARD_ID'' = Some v)
              \<and> (\<forall>v. q ''PRODUCT_NAME'' = Some v \<and> v \<noteq> [] \<longrightarrow> cols d ''PRODUCT_NAME'' = Some v)) data
   \<and> ((q ''PRODUCT_CARD_ID'' = None \<or> q ''PRODUCT_CARD_ID'' = Some [])
        \<and> (q ''PRODUCT_NAME'' = None \<or> q ''PRODUCT_NAME'' = Some []) \<longrightarrow> filterData q data = data)
   \<and> filterData q data =
       filterData (q(''PRODUCT_CARD_ID'' := None)) (filterData (q(''PRODUCT_NAME'' := None)) data)
   \<and> filterData q data =
       filterData (q(''PRODUCT_NAME'' := None)) (filterData (q(''PRODUCT_CARD_ID'' := None)) data)"
proof -
  have t: "truthy x = (\<exists>v. x = Some v \<and> v \<noteq> [])" for x
    by (cases x) auto
  have 1: "filterData q data =
     filter (\<lambda>d. (\<forall>v. q ''PRODUCT_CARD_ID'' = Some v \<and> v \<noteq> [] \<longrightarrow> cols d ''PRODUCT_CARD_ID'' = Some v)
              \<and> (\<forall>v. q ''PRODUCT_NAME'' = Some v \<and> v \<noteq> [] \<longrightarrow> cols d ''PRODUCT_NAME'' = Some v)) data"
    by (cases "q ''PRODUCT_CARD_ID''"; cases "q ''PRODUCT_NAME''")
       (auto simp: filterData_def Let_def intro: filter_cong)
  have 2: "(q ''PRODUCT_CARD_ID'' = None \<or> q ''PRODUCT_CARD_ID'' = Some [])
        \<and> (q ''PRODUCT_NAME'' = None \<or> q ''PRODUCT_NAME'' = Some []) \<longrightarrow> filterData q data = data"
    by (auto simp: filterData_def Let_def)
  have 3: "filterData q data =
       filterData (q(''PRODUCT_CARD_ID'' := None)) (filterData (q(''PRODUCT_NAME'' := None)) data)"
    by (auto simp: filterData_def Let_def intro: filter_cong)
  have 4: "filterData q data =
       filterData (q(''PRODUCT_NAME'' := None)) (filterData (q(''PRODUCT_CARD_ID'' := None)) data)"
    by (auto simp: filterData_def Let_def intro: filter_cong)
  from 1 2 3 4 show ?thesis by blast
qed

text \<open>The theorem at a query that selects one of two records.\<close>

theorem filterData_conjunction_witness:
  "filterData [''PRODUCT_CARD_ID'' \<mapsto> ''7'']
     [\<lparr>Date = None, Forecasted_Demand = Num 1, cols = [''PRODUCT_CARD_ID'' \<mapsto> ''7'']\<rparr>,
      \<lparr>Date = None, Forecasted_Demand = Num 2, cols = [''PRODUCT_CARD_ID'' \<mapsto> ''8'']\<rparr>]
   = [\<lparr>Date = None, Forecasted_Demand = Num 1, cols = [''PRODUCT_CARD_ID'' \<mapsto> ''7'']\<rparr>]"
  using filterData_conjunction [of "[''PRODUCT_CARD_ID'' \<mapsto> ''7'']"
     "[\<lparr>Date = None, Forecasted_Demand = Num 1, cols = [''PRODUCT_CARD_ID'' \<mapsto> ''7'']\<rparr>,
      \<lparr>Date = None, Forecasted_Demand = Num 2, cols = [''PRODUCT_CARD_ID'' \<mapsto> ''8'']\<rparr>]"]
  by simp

text \<open>
  C6 as stated fails for a parameter that is present and empty, as in
  \<^verbatim>\<open>?PRODUCT_CARD_ID=\<close>: the guard \<^verbatim>\<open>if (PRODUCT_CARD_ID)\<close> skips the filter, and
  the record comes back although its \<open>PRODUCT_CARD_ID\<close> is not the empty string.
\<close>

theorem filterData_empty_parameter_counterexample:
  "filterData [''PRODUCT_CARD_ID'' \<mapsto> '''']
     [\<lparr>Date = None, Forecasted_Demand = Num 1, cols = [''PRODUCT_CARD_ID'' \<mapsto> ''7'']\<rparr>]
   \<noteq> filter (\<lambda>d. cols d ''PRODUCT_CARD_ID'' = Some '''')
     [\<lparr>Date = None, Forecasted_Demand = Num 1, cols = [''PRODUCT_CARD_ID'' \<mapsto> ''7'']\<rparr>]"
  by (simp add: filterData_def)

subsection \<open>GET /api/products\<close>

lemma Map_set_keys: "fst ` set (Map_set m k v) = insert k (fst ` set m)"
  by (induction m k v rule: Map_set.induct) auto

lemma Map_set_key_cases: "(a, b) \<in> set (Map_set m k v) \<Longrightarrow> a = k \<or> a \<in> fst ` set m"
  using Map_set_keys [of m k v] by (metis fst_conv image_eqI insertE)

lemma Map_set_distinct: "distinct (map fst m) \<Longrightarrow> distinct (map fst (Map_set m k v))"
  by (induction m k v rule: Map_set.induct) (auto dest: Map_set_key_cases)

lemma map_of_Map_set: "map_of (Map_set m k v) = (map_of m)(k \<mapsto> v)"
  by (induction m k v rule: Map_set.induct) (auto simp: fun_eq_iff)

lemma fold_Map_set_keys:
  "fst ` set (fold (\<lambda>(k, v) m. Map_set m k v) es m) = fst ` set m \<union> fst ` set es"
proof (induction es arbitrary: m)
  case Nil
  show ?case by simp
next
  case (Cons e es)
  obtain k v where e: "e = (k, v)" by (cases e)
  show ?case by (simp add: e Cons.IH Map_set_keys)
qed

lemma fold_Map_set_distinct:
  "distinct (map fst m) \<Longrightarrow> distinct (map fst (fold (\<lambda>(k, v) m. Map_set m k v) es m))"
  by (induction es arbitrary: m) (auto simp: Map_set_distinct)

lemma map_of_fold_Map_set:
  "map_of (fold (\<lambda>(k, v) m. Map_set m k v) es m) = map_of (rev es @ m)"
  by (induction es arbitrary: m) (auto simp: map_of_Map_set fun_eq_iff map_add_def split: option.splits)

lemma map_of_rev_entries:
  "map_of (rev (map (\<lambda>x. (f x, g x)) xs)) k =
     (if filter (\<lambda>x. f x = k) xs = [] then None else Some (g (last (filter (\<lambda>x. f x = k) xs))))"
  by (induction xs rule: rev_induct) auto

text \<open>
  C8 (as amended). \<open>products\<close> returns one pair per distinct \<open>PRODUCT_CARD_ID\<close> of the
  dataset, and the pair of an ID is the one built from the last record that carries the
  ID: a later entry of \<^verbatim>\<open>new Map\<close> replaces the value stored under its key.
\<close>

theorem products_last_seen:
  "distinct (map PRODUCT_CARD_ID (products data))
   \<and> set (map PRODUCT_CARD_ID (products data)) = set (map (\<lambda>r. cols r ''PRODUCT_CARD_ID'') data)
   \<and> (\<forall>p \<in> set (products data).
        filter (\<lambda>r. cols r ''PRODUCT_CARD_ID'' = PRODUCT_CARD_ID p) data \<noteq> []
        \<and> PRODUCT_NAME p =
          cols (last (filter (\<lambda>r. cols r ''PRODUCT_CARD_ID'' = PRODUCT_CARD_ID p) data)) ''PRODUCT_NAME'')"
proof -
  define f where "f = (\<lambda>r :: forecast_row. cols r ''PRODUCT_CARD_ID'')"
  define g where "g = (\<lambda>r :: forecast_row. \<lparr>PRODUCT_CARD_ID = cols r ''PRODUCT_CARD_ID'', PRODUCT_NAME = cols r ''PRODUCT_NAME''\<rparr>)"
  define m where "m = new_Map (map (\<lambda>r. (f r, g r)) data)"
  have prod: "products data = map snd m"
    by (simp add: products_def m_def f_def g_def)
  have dist: "distinct (map fst m)"
    unfolding m_def new_Map_def by (rule fold_Map_set_distinct) simp
  have keys: "fst ` set m = f ` set data"
    unfolding m_def new_Map_def by (simp add: fold_Map_set_keys image_image)
  have mo: "map_of m = map_of (rev (map (\<lambda>r. (f r, g r)) data))"
    unfolding m_def new_Map_def by (simp add: map_of_fold_Map_set)
  have entry: "v = g (last (filter (\<lambda>r. f r = k) data)) \<and> filter (\<lambda>r. f r = k) data \<noteq> []"
    if "(k, v) \<in> set m" for k v
  proof -
    from that dist have "map_of m k = Some v" by simp
    then show ?thesis
      unfolding mo map_of_rev_entries by (simp split: if_splits)
  qed
  have key_of: "PRODUCT_CARD_ID v = k" if "(k, v) \<in> set m" for k v
  proof -
    from entry [OF that] have v: "v = g (last (filter (\<lambda>r. f r = k) data))"
      and ne: "filter (\<lambda>r. f r = k) data \<noteq> []" by simp_all
    from ne have "last (filter (\<lambda>r. f r = k) data) \<in> set (filter (\<lambda>r. f r = k) data)"
      by (rule last_in_set)
    then have "f (last (filter (\<lambda>r. f r = k) data)) = k" by simp
    with v show ?thesis by (simp add: g_def f_def)
  qed
  have same: "map PRODUCT_CARD_ID (map snd m) = map fst m"
    using key_of by (induction m) auto
  have a: "distinct (map PRODUCT_CARD_ID (products data))"
    using dist by (simp only: prod same)
  have b: "set (map PRODUCT_CARD_ID (products data)) = set (map (\<lambda>r. cols r ''PRODUCT_CARD_ID'') data)"
    using keys by (simp only: prod same) (simp add: f_def)
  have c: "filter (\<lambda>r. cols r ''PRODUCT_CARD_ID'' = PRODUCT_CARD_ID p) data \<noteq> []
        \<and> PRODUCT_NAME p =
          cols (last (filter (\<lambda>r. cols r ''PRODUCT_CARD_ID'' = PRODUCT_CARD_ID p) data)) ''PRODUCT_NAME''"
    if "p \<in> set (products data)" for p
  proof -
    from that prod obtain k where kv: "(k, p) \<in> set m" by auto
    from key_of [OF kv] entry [OF kv] show ?thesis by (simp add: g_def f_def)
  qed
  from a b c show ?thesis by blast
qed

text \<open>The theorem at two records that share an ID and differ in the name.\<close>

theorem products_last_seen_witness:
  "products
     [\<lparr>Date = None, Forecasted_Demand = Num 1, cols = [''PRODUCT_CARD_ID'' \<mapsto> ''7'', ''PRODUCT_NAME'' \<mapsto> ''A'']\<rparr>,
      \<lparr>Date = None, Forecasted_Demand = Num 2, cols = [''PRODUCT_CARD_ID'' \<mapsto> ''7'', ''PRODUCT_NAME'' \<mapsto> ''B'']\<rparr>]
   = [\<lparr>PRODUCT_CARD_ID = Some ''7'', PRODUCT_NAME = Some ''B''\<rparr>]
   \<and> PRODUCT_NAME (hd (products
     [\<lparr>Date = None, Forecasted_Demand = Num 1, cols = [''PRODUCT_CARD_ID'' \<mapsto> ''7'', ''PRODUCT_NAME'' \<mapsto> ''A'']\<rparr>,
      \<lparr>Date = None, Forecasted_Demand = Num 2, cols = [''PRODUCT_CARD_ID'' \<mapsto> ''7'', ''PRODUCT_NAME'' \<mapsto> ''B'']\<rparr>]))
     = Some ''B''"
  using products_last_seen [of
     "[\<lparr>Date = None, Forecasted_Demand = Num 1, cols = [''PRODUCT_CARD_ID'' \<mapsto> ''7'', ''PRODUCT_NAME'' \<mapsto> ''A'']\<rparr>,
      \<lparr>Date = None, Forecasted_Demand = Num 2, cols = [''PRODUCT_CARD_ID'' \<mapsto> ''7'', ''PRODUCT_NAME'' \<mapsto> ''B'']\<rparr>]"]
  by (simp add: products_def new_Map_def)

text \<open>
  C8 as stated fails: for two records with the ID 7 and the names A then B, the pair
  returned is not the first-seen one.
\<close>

theorem products_first_seen_counterexample:
  "products
     [\<lparr>Date = None, Forecasted_Demand = Num 1, cols = [''PRODUCT_CARD_ID'' \<mapsto> ''7'', ''PRODUCT_NAME'' \<mapsto> ''A'']\<rparr>,
      \<lparr>Date = None, Forecasted_Demand = Num 2, cols = [''PRODUCT_CARD_ID'' \<mapsto> ''7'', ''PRODUCT_NAME'' \<mapsto> ''B'']\<rparr>]
   \<noteq> [\<lparr>PRODUCT_CARD_ID = Some ''7'', PRODUCT_NAME = Some ''A''\<rparr>]"
  by (simp add: products_def new_Map_def)

subsection \<open>Numeric coercion with default 0\<close>











subsection \<open>KPI calculators on empty datasets\<close>

text \<open>
  Three of the four calculators are defined on an empty dataset: the sales KPIs return
  their error object, the production KPIs a snapshot of zeros, and the supplier KPIs
  the 404 response of a supplier that is not found.
\<close>

lemma sales_kpis_empty:
  "sales_kpis [] = \<lparr>status = 200, body = Object [(''error'', String ''Sales data not found'')]\<rparr>"
  by (simp add: sales_kpis_def json_def)

lemma production_kpis_empty:
  "production_kpis [] [] =
     \<lparr>status = 200,
      body = Object
        [(''total_operators'', Number (Num 0)),
         (''absent_today'', Number (Num 0)),
         (''total_units_scheduled'', Number (Num 0)),
         (''unique_products'', Number (Num 0))]\<rparr>"
  by (simp add: production_kpis_def distinct_count_def reduce_sum_def jslength_def json_def)

lemma supplier_kpis_empty:
  "supplier_data [] ''kpis'' supplier =
     Inr \<lparr>status = 404, body = Object [(''error'', String (supplier @ '' not found''))]\<rparr>"
  by (simp add: supplier_data_def status_json_def)

text \<open>The sales KPIs on the two records of the specification's example.\<close>

lemma sales_kpis_example:
  "sales_kpis
     [[''Order Item Id'' \<mapsto> ''1'', ''Sales'' \<mapsto> ''100'',
       ''Order Item Discount Rate'' \<mapsto> ''0.1'', ''Late_delivery_risk'' \<mapsto> ''1''],
      [''Order Item Id'' \<mapsto> ''2'', ''Sales'' \<mapsto> ''50'',
       ''Order Item Discount Rate'' \<mapsto> ''0.2'', ''Late_delivery_risk'' \<mapsto> ''0'']]
   = \<lparr>status = 200,
      body = Object
        [(''total_orders'', Number (Num 2)),
         (''total_sales'', Number (Num 150)),
         (''avg_discount'', Number (Num 15)),
         (''late_deliveries'', Number (Num 1))]\<rparr>"
  by (simp add: sales_kpis_def distinct_count_def reduce_sum_def jslength_def round2_def json_def
      parseFloat_or0_def parseFloat_def is_space_def is_digit_def digits_val_def digit_val_def
      read_exponent_def pow10_def Let_def)

text \<open>
  The inventory KPIs with an empty \<^verbatim>\<open>stockData\<close>, whatever the other two datasets:
  the average lead time is NaN.
\<close>

lemma inventory_kpis_no_stock:
  "get_prop (body (inventory_kpis [] alertData scheduleData)) ''avg_lead_time'' = Number NaN"
  by (simp add: inventory_kpis_def Let_def reduce_sum_def jslength_def round2_def json_def)

text \<open>
  C3. The inventory KPIs on empty datasets: the handler has no guard for an empty
  \<^verbatim>\<open>stockData\<close>, divides the empty sum 0 by the length 0, and answers with
  \<open>avg_lead_time\<close> NaN, where the claim asks for no division by zero and a
  data-not-available result or a snapshot of zeros.
\<close>

theorem inventory_kpis_empty_divides_by_zero:
  "inventory_kpis [] [] [] =
     \<lparr>status = 200,
      body = Object
        [(''total_skus'', Number (Num 0)),
         (''total_stock_on_hand'', Number (Num 0)),
         (''in_transit'', Number (Num 0)),
         (''below_reorder_point'', Number (Num 0)),
         (''avg_lead_time'', Number NaN),
         (''scheduled_qty'', Number (Num 0))]\<rparr>"
  by (simp add: inventory_kpis_def distinct_count_def reduce_sum_def jslength_def round2_def
      json_def)

subsection \<open>Exceptions that leave a handler\<close>

text \<open>
  Whatever the endpoint and the supplier asked for, the supplier handler raises as soon
  as one row of \<^verbatim>\<open>suppliersData\<close> lacks \<open>Supplier_Name\<close>: \<^verbatim>\<open>filter\<close> calls the
  comparison on every row.
\<close>

lemma filter_raising_missing_name:
  "\<not> list_all (\<lambda>r. r ''Supplier_Name'' \<noteq> None) rs \<Longrightarrow>
   filter_raising (name_matches supplier) rs = Inl TypeError"
proof (induction rs)
  case Nil
  then show ?case by simp
next
  case (Cons r rs)
  show ?case
  proof (cases "r ''Supplier_Name''")
    case None
    then have "name_matches supplier r = Inl TypeError" by (simp add: name_matches_def)
    then show ?thesis by simp
  next
    case (Some n)
    then have "name_matches supplier r = Inr (toLowerCase n = toLowerCase supplier)"
      by (simp add: name_matches_def)
    moreover from Some Cons have "filter_raising (name_matches supplier) rs = Inl TypeError"
      by simp
    ultimately show ?thesis by simp
  qed
qed

lemma supplier_data_missing_name:
  "\<not> list_all (\<lambda>r. r ''Supplier_Name'' \<noteq> None) suppliersData \<Longrightarrow>
   supplier_data suppliersData endpoint supplier = Inl TypeError"
  by (simp add: supplier_data_def filter_raising_missing_name)

text \<open>
  C4. The request \<^verbatim>\<open>GET /api/suppliers/kpis/acme\<close> reaches the supplier handler, and on
  a \<^verbatim>\<open>suppliersData\<close> with a row that lacks \<open>Supplier_Name\<close> the handler raises a
  TypeError that nothing in index.js catches: the handler sends no JSON error payload.
\<close>

theorem supplier_data_raises:
  "dispatch [''api'', ''suppliers'', ''kpis'', ''acme'']
     = Some (Supplier_data, [(''endpoint'', ''kpis''), (''supplier'', ''acme'')])
   \<and> supplier_data [[''SKU_No'' \<mapsto> ''S1'']] ''kpis'' ''acme'' = Inl TypeError"
  by (simp add: dispatch_def routes_def toLowerCase_def lower_char_def supplier_data_def
      name_matches_def)

subsection \<open>The two attendance endpoints\<close>

text \<open>
  The sort keeps the entries and, when every date of the dataset parses, leaves them in
  ascending order of their time values; every entry has a non-empty \<open>shift\<close>.
\<close>

lemma sort_insert_set: "set (sort_insert c x ys) = insert x (set ys)"
  by (induction ys) auto

lemma sort_insert_length: "length (sort_insert c x ys) = Suc (length ys)"
  by (induction ys) auto

lemma Array_sort_set: "set (Array_sort c xs) = set xs"
  by (induction xs) (auto simp: Array_sort_def sort_insert_set)

lemma Array_sort_length: "length (Array_sort c xs) = length xs"
  by (induction xs) (auto simp: Array_sort_def sort_insert_length)

lemma sort_insert_sorted:
  fixes k :: "'a \<Rightarrow> int"
  assumes "\<And>y. y \<in> set ys \<Longrightarrow> jsgt0 (c x y) = (k y < k x)" and "sorted (map k ys)"
  shows "sorted (map k (sort_insert c x ys))"
  using assms
proof (induction ys)
  case Nil
  show ?case by simp
next
  case (Cons y ys)
  show ?case
  proof (cases "jsgt0 (c x y)")
    case True
    with Cons.prems have "k y < k x" by simp
    moreover have "sorted (map k (sort_insert c x ys))"
      using Cons by simp
    ultimately show ?thesis
      using True Cons.prems(2) by (auto simp: sort_insert_set)
  next
    case False
    with Cons.prems have "k x \<le> k y" by (simp add: not_less)
    with False Cons.prems(2) show ?thesis by auto
  qed
qed

lemma Array_sort_sorted:
  fixes k :: "'a \<Rightarrow> int"
  assumes "\<And>x y. x \<in> set xs \<Longrightarrow> y \<in> set xs \<Longrightarrow> jsgt0 (c x y) = (k y < k x)"
  shows "sorted (map k (Array_sort c xs))"
  using assms
proof (induction xs)
  case Nil
  show ?case by (simp add: Array_sort_def)
next
  case (Cons x xs)
  have ih: "sorted (map k (Array_sort c xs))"
    using Cons by simp
  have "sorted (map k (sort_insert c x (Array_sort c xs)))"
    by (rule sort_insert_sorted) (use Cons.prems ih in \<open>simp_all add: Array_sort_set\<close>)
  then show ?case by (simp add: Array_sort_def)
qed

lemma attendance_sorted_by_date:
  assumes "list_all (\<lambda>item. new_Date parse (item ''Date'') \<noteq> None) attendanceData"
  shows "sorted (map (\<lambda>e. the (new_Date parse (date e))) (attendance parse attendanceData))"
  unfolding attendance_def Let_def
proof (rule Array_sort_sorted)
  fix x y :: attendance_entry
  let ?fmt = "\<lambda>item. \<lparr>date = item ''Date'', operator_id = item ''Operator_ID'',
       operator_name = item ''Operator_Name'', present = item ''Present'',
       shift = (case item ''Shift'' of None \<Rightarrow> ''Day'' | Some s \<Rightarrow> if s = [] then ''Day'' else s)\<rparr>"
  assume x: "x \<in> set (map ?fmt attendanceData)" and y: "y \<in> set (map ?fmt attendanceData)"
  from x assms have "new_Date parse (date x) \<noteq> None"
    by (auto simp: list_all_iff)
  moreover from y assms have "new_Date parse (date y) \<noteq> None"
    by (auto simp: list_all_iff)
  ultimately obtain a b where "new_Date parse (date x) = Some a" "new_Date parse (date y) = Some b"
    by auto
  then show "jsgt0 (date_diff (new_Date parse (date x)) (new_Date parse (date y)))
           = (the (new_Date parse (date y)) < the (new_Date parse (date x)))"
    by simp
qed

lemma attendance_shift_default: "e \<in> set (attendance parse attendanceData) \<Longrightarrow> shift e \<noteq> []"
  by (auto simp: attendance_def Array_sort_set split: option.splits if_splits)

lemma attendance_length: "length (attendance parse attendanceData) = length attendanceData"
  by (simp add: attendance_def Array_sort_length)


subsection \<open>Startup\<close>

text \<open>A failed load exits the process with status 1.\<close>

lemma load_error_exits:
  "listening s \<Longrightarrow> exit_code s = None \<Longrightarrow> exit_code (step s (LoadError d)) = Some 1"
  by simp

text \<open>No request is handled before the server listens or after the process has exited.\<close>

lemma request_refused:
  "\<not> listening s \<or> exit_code s \<noteq> None \<Longrightarrow> handled (step s Request) = handled s"
  by auto

text \<open>
  C1. A run in which no load fails and a request arrives after the server has started
  listening and before any stream has ended: the request is handled, and its handler
  sees none of the arrays assigned. The loads only start once the server listens, so
  such a window exists in every run.
\<close>

theorem request_handled_before_loads:
  "handled (run ([Listening, Request] @ map LoadEnd all_datasets)) = [[]]
   \<and> exit_code (run ([Listening, Request] @ map LoadEnd all_datasets)) = None
   \<and> loaded (run ([Listening, Request] @ map LoadEnd all_datasets)) = rev all_datasets"
  by (simp add: run_def init_def all_datasets_def)

subsection \<open>Routes that share a path\<close>

text \<open>
  C9 (as amended). Of the two handlers registered for \<^verbatim>\<open>/api/insights\<close>, the one
  registered first answers every GET request to the path, whatever the query and the
  datasets: the response is the array of monthly bullet insights that
  \<open>filterInsightsData\<close> selects.
\<close>

theorem insights_served_by_first_handler:
  "serve (insights_handlers others insightsData operatorInsightsData)
     \<lparr>path = [''api'', ''insights''], query = q\<rparr>
   = Some (monthly_bullet_insights q insightsData)"
  by (simp add: serve_def dispatch_def routes_def toLowerCase_def lower_char_def
      insights_handlers_def)

text \<open>
  C9 as stated fails: with one operator insight loaded and no monthly bullet insight,
  the response to \<^verbatim>\<open>GET /api/insights\<close> is not the one the later-registered handler
  produces.
\<close>

theorem insights_later_handler_counterexample:
  "serve (insights_handlers (\<lambda>h bs q. Rows []) []
            [[''operator_id'' \<mapsto> ''OP1'', ''ai_insight'' \<mapsto> ''Reliable'']])
     \<lparr>path = [''api'', ''insights''], query = Map.empty\<rparr>
   \<noteq> Some (operator_insights [[''operator_id'' \<mapsto> ''OP1'', ''ai_insight'' \<mapsto> ''Reliable'']])"
  by (simp add: serve_def dispatch_def routes_def toLowerCase_def lower_char_def
      insights_handlers_def monthly_bullet_insights_def operator_insights_def)

subsection \<open>The alternates resolver\<close>

text \<open>
  Called on a \<^verbatim>\<open>suppliersData\<close> whose rows all carry \<open>Supplier_Name\<close>, the handler of
  \<^verbatim>\<open>/api/suppliers/alternates/:supplier\<close> looks the name up without regard to letter
  case, answers 404 when no supplier matches, and otherwise returns the alternate
  suppliers whose \<open>sku_id\<close> is exactly the \<open>SKU_No\<close> of the first match, leaving out the
  rows with an absent or empty \<open>sku_id\<close> or \<open>supplier_name\<close>.
\<close>

lemma find_raising_present:
  "list_all (\<lambda>r. r ''Supplier_Name'' \<noteq> None) rs \<Longrightarrow>
   find_raising (name_matches supplier) rs
     = Inr (find (\<lambda>r. map_option toLowerCase (r ''Supplier_Name'') = Some (toLowerCase supplier)) rs)"
  by (induction rs) (auto simp: name_matches_def)

lemma alternate_entry_truthy:
  "(truthy_val (get_prop (alternate_entry item) ''sku_id'')
      \<and> truthy_val (get_prop (alternate_entry item) ''supplier_name''))
   = (truthy (item ''sku_id'') \<and> truthy (item ''supplier_name''))"
  by (cases "item ''sku_id''"; cases "item ''supplier_name''") (simp_all add: alternate_entry_def)

lemma alternates_when_reached:
  assumes "list_all (\<lambda>r. r ''Supplier_Name'' \<noteq> None) suppliersData"
  shows "alternates suppliersData alternateSuppliersData supplier =
     Inr (case find (\<lambda>r. map_option toLowerCase (r ''Supplier_Name'') = Some (toLowerCase supplier))
                 suppliersData of
            None \<Rightarrow> status_json 404 (Object [(''error'', String (supplier @ '' not found''))])
          | Some mainSupplier \<Rightarrow>
              json (Array (map alternate_entry
                (filter (\<lambda>item. item ''sku_id'' = mainSupplier ''SKU_No''
                                \<and> truthy (item ''sku_id'') \<and> truthy (item ''supplier_name''))
                   alternateSuppliersData))))"
proof -
  have "filter (\<lambda>item. truthy_val (get_prop item ''sku_id'') \<and> truthy_val (get_prop item ''supplier_name''))
          (map alternate_entry (filter (\<lambda>item. item ''sku_id'' = k) alts))
      = map alternate_entry
          (filter (\<lambda>item. item ''sku_id'' = k \<and> truthy (item ''sku_id'') \<and> truthy (item ''supplier_name''))
             alts)" for k alts
    by (induction alts) (simp_all add: alternate_entry_truthy del: truthy_val.simps get_prop.simps)
  then show ?thesis
    by (simp add: alternates_def find_raising_present [OF assms] split: option.splits)
qed

text \<open>
  The router never picks that handler: every path its pattern matches is matched by the
  pattern \<^verbatim>\<open>/api/suppliers/:endpoint/:supplier\<close>, which is registered before it.
\<close>

lemma toLowerCase_not_Nil: "toLowerCase s = toLowerCase t \<Longrightarrow> t \<noteq> [] \<Longrightarrow> s \<noteq> []"
  by (auto simp: toLowerCase_def)

lemma alternates_pattern_shadowed:
  assumes "match_path [Lit ''suppliers'', Lit ''alternates'', Param ''supplier''] ss = Some bs"
  shows "match_path [Lit ''suppliers'', Param ''endpoint'', Param ''supplier''] ss \<noteq> None"
proof -
  from assms obtain a b c where ss: "ss = [a, b, c]"
    by (cases ss rule: list.exhaust; cases "tl ss"; cases "tl (tl ss)"; cases "tl (tl (tl ss))")
       (auto split: if_splits option.splits)
  from assms ss have a: "toLowerCase a = toLowerCase ''suppliers''"
    and b: "toLowerCase b = toLowerCase ''alternates''" and c: "c \<noteq> []"
    by (auto split: if_splits option.splits)
  from b have "b \<noteq> []" by (rule toLowerCase_not_Nil) simp
  with a c ss show ?thesis by simp
qed

lemma alternates_handler_unreachable: "dispatch p \<noteq> Some (Suppliers_alternates, bs)"
proof
  assume d: "dispatch p = Some (Suppliers_alternates, bs)"
  show False
  proof (cases p)
    case Nil
    with d show False by (simp add: dispatch_def routes_def)
  next
    case (Cons s ss)
    show False
    proof (cases "toLowerCase s = toLowerCase ''api''")
      case False
      with d Cons show False by (simp add: dispatch_def routes_def)
    next
      case True
      with d Cons show False
        using alternates_pattern_shadowed [of ss]
        by (auto simp: dispatch_def routes_def split: option.splits)
    qed
  qed
qed

text \<open>
  C7. The request \<^verbatim>\<open>GET /api/suppliers/alternates/Acme\<close>, with a supplier ACME of SKU S1
  and an alternate supplier for S1: the router hands it to the handler of
  \<^verbatim>\<open>/api/suppliers/:endpoint/:supplier\<close>, which answers 400 for the unknown endpoint
  \<^verbatim>\<open>alternates\<close>; the alternates handler, which would have returned the alternate, is
  not run.
\<close>

theorem alternates_route_shadowed:
  "dispatch [''api'', ''suppliers'', ''alternates'', ''Acme'']
     = Some (Supplier_data, [(''endpoint'', ''alternates''), (''supplier'', ''Acme'')])
   \<and> supplier_data [[''Supplier_Name'' \<mapsto> ''ACME'', ''SKU_No'' \<mapsto> ''S1'']] ''alternates'' ''Acme''
     = Inr \<lparr>status = 400,
            body = Object [(''error'', String (''Unknown supplier endpoint '' @ quoted ''alternates''))]\<rparr>
   \<and> alternates [[''Supplier_Name'' \<mapsto> ''ACME'', ''SKU_No'' \<mapsto> ''S1'']]
        [[''sku_id'' \<mapsto> ''S1'', ''supplier_name'' \<mapsto> ''Beta'']] ''Acme''
     = Inr \<lparr>status = 200,
            body = Array [Object [(''sku_id'', String ''S1''), (''supplier_name'', String ''Beta''),
                                  (''otd_percentage'', Undefined), (''quality_score'', Undefined),
                                  (''email'', Undefined), (''location'', Undefined)]]\<rparr>"
  by (simp add: dispatch_def routes_def toLowerCase_def lower_char_def supplier_data_def
      alternates_def alternate_entry_def name_matches_def status_json_def json_def)

end
